theory Spec2Isabelle
  imports Complex_Main
begin

section \<open>Three-body simulator: the equations of motion, the integration call and playback\<close>

text \<open>
  The development follows \<^verbatim>\<open>3bodyproblem.py\<close>. Arithmetic is exact real arithmetic:
  state components and masses are finite reals, and the one operation of the derivative
  evaluator that can leave the finite numbers, the division by the cubed distance, has
  the outcomes of an IEEE division written out (a quotient, an infinity, or NaN for 0/0).
  Rounding, overflow and underflow are not modelled.
\<close>

subsection \<open>Values and errors\<close>

datatype error = IndexError | ValueError | ZeroDivisionError

datatype fl = Fin real | PInf | NInf | NaN

text \<open>Addition of two array elements; NaN is absorbing and opposite infinities give NaN.\<close>

fun fadd :: "fl \<Rightarrow> fl \<Rightarrow> fl" where
  "fadd (Fin a) (Fin b) = Fin (a + b)"
| "fadd NaN _ = NaN"
| "fadd _ NaN = NaN"
| "fadd PInf NInf = NaN"
| "fadd NInf PInf = NaN"
| "fadd PInf _ = PInf"
| "fadd _ PInf = PInf"
| "fadd NInf _ = NInf"
| "fadd _ NInf = NInf"

text \<open>
  Division of a finite number by a finite number that is not negative zero (the divisor
  of the source is a cubed norm): numpy does not raise on a zero divisor, it warns and
  stores an infinity or NaN.
\<close>

definition fdiv :: "real \<Rightarrow> real \<Rightarrow> fl" where
  "fdiv x d =
     (if d \<noteq> 0 then Fin (x / d)
      else if x = 0 then NaN
      else if 0 < x then PInf else NInf)"

definition then_err :: "error + 'a \<Rightarrow> ('a \<Rightarrow> error + 'b) \<Rightarrow> error + 'b" where
  "then_err r f = (case r of Inl e \<Rightarrow> Inl e | Inr x \<Rightarrow> f x)"

subsection \<open>The array operations the source uses\<close>

text \<open>\<^verbatim>\<open>xs[a:b]\<close> with literal bounds \<open>0 \<le> a \<le> b\<close>: a slice never raises, it is cut short.\<close>

definition slice :: "'a list \<Rightarrow> nat \<Rightarrow> nat \<Rightarrow> 'a list" where
  "slice xs a b = take (b - a) (drop a xs)"

text \<open>\<^verbatim>\<open>xs[k]\<close> with a non-negative index: IndexError out of range.\<close>

definition index :: "'a list \<Rightarrow> nat \<Rightarrow> error + 'a" where
  "index xs k = (if k < length xs then Inr (xs ! k) else Inl IndexError)"

text \<open>
  An element-wise binary operation on two one-dimensional arrays, with numpy's
  broadcasting: equal lengths pair up, a one-element array is stretched, anything else
  is a ValueError.
\<close>

definition broadcast :: "('a \<Rightarrow> 'a \<Rightarrow> 'b) \<Rightarrow> 'a list \<Rightarrow> 'a list \<Rightarrow> error + 'b list" where
  "broadcast f a b =
     (if length a = length b then Inr (map2 f a b)
      else if length a = 1 then Inr (map (f (hd a)) b)
      else if length b = 1 then Inr (map (\<lambda>x. f x (hd b)) a)
      else Inl ValueError)"

text \<open>\<^verbatim>\<open>np.linalg.norm\<close> of a one-dimensional array: the Euclidean norm.\<close>

definition linalg_norm :: "real list \<Rightarrow> real" where
  "linalg_norm v = sqrt (sum_list (map (\<lambda>x. x\<^sup>2) v))"

subsection \<open>The derivative evaluator\<close>

text \<open>
  \<^verbatim>\<open>return mj * (rj - ri) / np.linalg.norm(rj - ri)**3\<close>: the difference is scaled by
  the mass and every component is divided by the cubed norm.
\<close>

definition compute_acceleration :: "real list \<Rightarrow> real list \<Rightarrow> real \<Rightarrow> error + fl list" where
  "compute_acceleration ri rj mj =
     then_err (broadcast (-) rj ri) (\<lambda>d.
       Inr (map (\<lambda>x. fdiv (mj * x) (linalg_norm d ^ 3)) d))"

definition three_body_equations :: "real \<Rightarrow> real list \<Rightarrow> real list \<Rightarrow> error + fl list" where
  "three_body_equations t y masses =
     (let r1 = slice y 0 2; r2 = slice y 2 4; r3 = slice y 4 6;
          v1 = slice y 6 8; v2 = slice y 8 10; v3 = slice y 10 12
      in
      then_err (index masses 1) (\<lambda>m1.
      then_err (compute_acceleration r1 r2 m1) (\<lambda>a12.
      then_err (index masses 2) (\<lambda>m2.
      then_err (compute_acceleration r1 r3 m2) (\<lambda>a13.
      then_err (broadcast fadd a12 a13) (\<lambda>a1.
      then_err (index masses 0) (\<lambda>m0.
      then_err (compute_acceleration r2 r1 m0) (\<lambda>a21.
      then_err (index masses 2) (\<lambda>m2.
      then_err (compute_acceleration r2 r3 m2) (\<lambda>a23.
      then_err (broadcast fadd a21 a23) (\<lambda>a2.
      then_err (index masses 0) (\<lambda>m0.
      then_err (compute_acceleration r3 r1 m0) (\<lambda>a31.
      then_err (index masses 1) (\<lambda>m1.
      then_err (compute_acceleration r3 r2 m1) (\<lambda>a32.
      then_err (broadcast fadd a31 a32) (\<lambda>a3.
      Inr (map Fin v1 @ map Fin v2 @ map Fin v3 @ a1 @ a2 @ a3)))))))))))))))))"

text \<open>
  The force law as the specification words it, by body index: body \<open>i\<close> has position
  \<open>(y[2i], y[2i+1])\<close>, and the contribution of body \<open>j\<close> to the acceleration of body
  \<open>i\<close> is \<open>masses[j] * (r_j - r_i) / |r_j - r_i|^3\<close>. The evaluator above is compared
  with these definitions.
\<close>

definition position :: "real list \<Rightarrow> nat \<Rightarrow> real list" where
  "position y i = [y ! (2 * i), y ! (2 * i + 1)]"

definition spec_pair_acceleration :: "real list \<Rightarrow> real list \<Rightarrow> nat \<Rightarrow> nat \<Rightarrow> fl list" where
  "spec_pair_acceleration y masses i j =
     (let dx = y ! (2 * j) - y ! (2 * i);
          dy = y ! (2 * j + 1) - y ! (2 * i + 1);
          dist = sqrt (dx\<^sup>2 + dy\<^sup>2)
      in [fdiv (masses ! j * dx) (dist ^ 3), fdiv (masses ! j * dy) (dist ^ 3)])"

definition others :: "nat \<Rightarrow> nat list" where
  "others i = filter (\<lambda>j. j \<noteq> i) [0, 1, 2]"

definition spec_total_acceleration :: "real list \<Rightarrow> real list \<Rightarrow> nat \<Rightarrow> fl list" where
  "spec_total_acceleration y masses i =
     map2 fadd (spec_pair_acceleration y masses i (others i ! 0))
               (spec_pair_acceleration y masses i (others i ! 1))"

subsection \<open>The integration call\<close>

text \<open>
  \<^verbatim>\<open>solve_ivp\<close> belongs to scipy, not to this program: it is a parameter of the model.
  It receives the derivative function, the time span, the initial state and the
  evaluation times, and either raises or returns a result object whose fields \<^verbatim>\<open>t\<close>
  and \<^verbatim>\<open>y\<close> are read by \<^verbatim>\<open>run_simulation\<close>.
\<close>

record ode_result =
  res_t :: "real list"
  res_y :: "fl list list"

type_synonym derivative = "real \<Rightarrow> real list \<Rightarrow> error + fl list"

type_synonym solver =
  "derivative \<Rightarrow> real \<times> real \<Rightarrow> real list \<Rightarrow> real list \<Rightarrow> error + ode_result"

definition run_simulation ::
  "solver \<Rightarrow> real list \<Rightarrow> real list \<Rightarrow> real \<times> real \<Rightarrow> real list
     \<Rightarrow> error + real list \<times> fl list list" where
  "run_simulation solve_ivp masses initial_conditions t_span t_eval =
     then_err
       (solve_ivp (\<lambda>t y. three_body_equations t y masses) t_span initial_conditions t_eval)
       (\<lambda>result. Inr (res_t result, res_y result))"

text \<open>
  An instance of the solver parameter for running \<open>run_simulation\<close> on concrete inputs:
  it evaluates the derivative once at the initial state, lets an exception of that call
  escape, and otherwise reports the initial state, unchanged, at every evaluation time
  (one row per state component). It validates nothing.
\<close>

definition hold_solver :: solver where
  "hold_solver f t_span y0 t_eval =
     then_err (f (fst t_span) y0) (\<lambda>_.
       Inr \<lparr>res_t = t_eval, res_y = map (\<lambda>c. replicate (length t_eval) (Fin c)) y0\<rparr>)"

subsection \<open>The evaluation-time grid of start_simulation\<close>

text \<open>
  \<^verbatim>\<open>np.linspace(start, stop, num)\<close> with its default \<^verbatim>\<open>endpoint=True\<close>: \<open>num\<close> samples,
  the \<open>i\<close>-th at \<open>i * step + start\<close> with \<open>step = (stop - start) / (num - 1)\<close>, and the last
  sample overwritten with \<open>stop\<close> when there is more than one.
\<close>

definition linspace :: "real \<Rightarrow> real \<Rightarrow> nat \<Rightarrow> real list" where
  "linspace start stop num =
     (let dv = num - 1;
          delta = stop - start;
          ys = (if 0 < dv then map (\<lambda>i. real i * (delta / real dv) + start) [0..<num]
                else map (\<lambda>i. real i * delta + start) [0..<num])
      in if 1 < num then ys[num - 1 := stop] else ys)"

definition t_span :: "real \<times> real" where
  "t_span = (0, 100)"

definition t_eval :: "real list" where
  "t_eval = linspace 0 100 10000"

subsection \<open>Playback: the frame callback\<close>

text \<open>
  A plotted line holds its x data, its y data and its marker size. The callback
  \<^verbatim>\<open>update(frame)\<close> closes over the solver's \<^verbatim>\<open>t\<close> and \<^verbatim>\<open>y\<close> (one row per state
  component, one column per time), the marker sizes and the two lists of lines; the model
  takes them as arguments and returns the returned list \<^verbatim>\<open>lines + trails\<close>.
\<close>

record 'a line2d =
  xdata :: "'a list"
  ydata :: "'a list"
  markersize :: real

text \<open>\<^verbatim>\<open>y[r, c]\<close> on a two-dimensional array, with non-negative indices.\<close>

definition get2 :: "'a list list \<Rightarrow> nat \<Rightarrow> nat \<Rightarrow> error + 'a" where
  "get2 y r c =
     (if r < length y \<and> c < length (y ! r) then Inr (y ! r ! c) else Inl IndexError)"

text \<open>\<^verbatim>\<open>y[r, :n]\<close>: the row index is checked, the slice is cut short.\<close>

definition row_prefix :: "'a list list \<Rightarrow> nat \<Rightarrow> nat \<Rightarrow> error + 'a list" where
  "row_prefix y r n = (if r < length y then Inr (take n (y ! r)) else Inl IndexError)"

text \<open>One pass of the loop body, for the line at index \<open>i\<close>.\<close>

definition update_body ::
  "'a list list \<Rightarrow> real list \<Rightarrow> nat \<Rightarrow> nat \<Rightarrow> 'a line2d list \<times> 'a line2d list
     \<Rightarrow> error + 'a line2d list \<times> 'a line2d list" where
  "update_body y sizes idx i st =
     (let lines = fst st; trails = snd st in
      then_err (get2 y (2 * i) idx) (\<lambda>px.
      then_err (get2 y (2 * i + 1) idx) (\<lambda>py.
      let lines1 = lines[i := (lines ! i)\<lparr>xdata := [px], ydata := [py]\<rparr>] in
      then_err (index sizes i) (\<lambda>s.
      let lines2 = lines1[i := (lines1 ! i)\<lparr>markersize := s\<rparr>] in
      then_err (index trails i) (\<lambda>trail.
      then_err (row_prefix y (2 * i) (idx + 1)) (\<lambda>xs.
      then_err (row_prefix y (2 * i + 1) (idx + 1)) (\<lambda>ys.
      Inr (lines2, trails[i := trail\<lparr>xdata := xs, ydata := ys\<rparr>]))))))))"

fun update_loop ::
  "'a list list \<Rightarrow> real list \<Rightarrow> nat \<Rightarrow> nat list \<Rightarrow> 'a line2d list \<times> 'a line2d list
     \<Rightarrow> error + 'a line2d list \<times> 'a line2d list" where
  "update_loop y sizes idx [] st = Inr st"
| "update_loop y sizes idx (i # rest) st =
     (case update_body y sizes idx i st of
        Inl e \<Rightarrow> Inl e
      | Inr st' \<Rightarrow> update_loop y sizes idx rest st')"

definition update ::
  "nat \<Rightarrow> real list \<Rightarrow> 'a list list \<Rightarrow> real list \<Rightarrow> 'a line2d list \<Rightarrow> 'a line2d list
     \<Rightarrow> error + 'a line2d list" where
  "update frame t y sizes lines trails =
     (if length t = 0 then Inl ZeroDivisionError
      else
        let idx = frame mod length t in
        then_err (update_loop y sizes idx [0..<length lines] (lines, trails)) (\<lambda>st.
          Inr (fst st @ snd st)))"

text \<open>
  The trajectory state at one time index is a column of \<^verbatim>\<open>y\<close>; the specification's trail
  of a body up to an index is the slice \<^verbatim>\<open>[0 : index + 1]\<close> of a row.
\<close>

definition state_at :: "'a list list \<Rightarrow> nat \<Rightarrow> 'a list" where
  "state_at y k = map (\<lambda>row. row ! k) y"

definition spec_trail :: "'a list list \<Rightarrow> nat \<Rightarrow> nat \<Rightarrow> 'a list \<times> 'a list" where
  "spec_trail y i frame_index =
     (slice (y ! (2 * i)) 0 (frame_index + 1), slice (y ! (2 * i + 1)) 0 (frame_index + 1))"

text \<open>
  What the solver hands back on a 12-component problem: twelve rows, each as long as the
  list of reported times.
\<close>

definition well_formed_result :: "real list \<Rightarrow> 'a list list \<Rightarrow> bool" where
  "well_formed_result t y \<longleftrightarrow> length y = 12 \<and> (\<forall>row \<in> set y. length row = length t)"

section \<open>Properties of the derivative evaluator\<close>

subsection \<open>Auxiliary facts\<close>

lemma list12:
  assumes "length (xs :: 'a list) = 12"
  shows "xs = [xs ! 0, xs ! 1, xs ! 2, xs ! 3, xs ! 4, xs ! 5,
               xs ! 6, xs ! 7, xs ! 8, xs ! 9, xs ! 10, xs ! 11]"
  using assms by (auto simp: eval_nat_numeral length_Suc_conv)

lemma list3:
  assumes "length (xs :: 'a list) = 3"
  shows "xs = [xs ! 0, xs ! 1, xs ! 2]"
  using assms by (auto simp: eval_nat_numeral length_Suc_conv)

lemma all_less3: "(\<forall>i<3::nat. P i) \<longleftrightarrow> P 0 \<and> P 1 \<and> P 2"
proof
  assume "\<forall>i<3. P i"
  then show "P 0 \<and> P 1 \<and> P 2" by simp
next
  assume h: "P 0 \<and> P 1 \<and> P 2"
  show "\<forall>i<3. P i"
  proof (intro allI impI)
    fix i :: nat
    assume "i < 3"
    then consider "i = 0" | "i = 1" | "i = 2" by linarith
    then show "P i" using h by cases simp_all
  qed
qed

lemma compute_acceleration_pair:
  "compute_acceleration [xi, yi] [xj, yj] mj =
     Inr [fdiv (mj * (xj - xi)) (sqrt ((xj - xi)\<^sup>2 + (yj - yi)\<^sup>2) ^ 3),
          fdiv (mj * (yj - yi)) (sqrt ((xj - xi)\<^sup>2 + (yj - yi)\<^sup>2) ^ 3)]"
  by (simp add: compute_acceleration_def broadcast_def then_err_def linalg_norm_def)

lemma others_simps: "others 0 = [1, 2]" "others (Suc 0) = [0, 2]" "others 2 = [0, 1]"
  by (simp_all add: others_def)

lemma tbe_explicit:
  "three_body_equations t [x1, y1, x2, y2, x3, y3, vx1, vy1, vx2, vy2, vx3, vy3] [m0, m1, m2] =
     Inr ([Fin vx1, Fin vy1, Fin vx2, Fin vy2, Fin vx3, Fin vy3]
          @ spec_total_acceleration
              [x1, y1, x2, y2, x3, y3, vx1, vy1, vx2, vy2, vx3, vy3] [m0, m1, m2] 0
          @ spec_total_acceleration
              [x1, y1, x2, y2, x3, y3, vx1, vy1, vx2, vy2, vx3, vy3] [m0, m1, m2] 1
          @ spec_total_acceleration
              [x1, y1, x2, y2, x3, y3, vx1, vy1, vx2, vy2, vx3, vy3] [m0, m1, m2] 2)"
  unfolding three_body_equations_def slice_def index_def Let_def
  apply (simp add: compute_acceleration_pair then_err_def)
  apply (simp add: broadcast_def spec_total_acceleration_def spec_pair_acceleration_def
      others_simps Let_def)
  done

lemma tbe_result:
  assumes "length y = 12" and "length masses = 3"
  shows "three_body_equations t y masses =
     Inr (map Fin (slice y 6 12)
          @ spec_total_acceleration y masses 0
          @ spec_total_acceleration y masses 1
          @ spec_total_acceleration y masses 2)"
proof -
  obtain x1 y1 x2 y2 x3 y3 vx1 vy1 vx2 vy2 vx3 vy3
    where y: "y = [x1, y1, x2, y2, x3, y3, vx1, vy1, vx2, vy2, vx3, vy3]"
    using list12 [OF assms(1)] by blast
  obtain m0 m1 m2 where m: "masses = [m0, m1, m2]"
    using list3 [OF assms(2)] by blast
  have "map Fin (slice y 6 12) = [Fin vx1, Fin vy1, Fin vx2, Fin vy2, Fin vx3, Fin vy3]"
    by (simp add: y slice_def)
  then show ?thesis
    unfolding y m using tbe_explicit by simp
qed

lemma length_spec_total [simp]: "length (spec_total_acceleration y masses i) = 2"
  by (simp add: spec_total_acceleration_def spec_pair_acceleration_def Let_def)

subsection \<open>The force law\<close>



subsection \<open>The layout of the derivative\<close>

text \<open>
  Claim C2. For every 12-component state \<open>[r1, r2, r3, v1, v2, v3]\<close> and every vector of
  three masses the evaluator returns 12 components in the same layout: the first six are
  the input velocities, unchanged, and the last six are the accelerations \<open>a1, a2, a3\<close>
  of the three bodies.
\<close>

theorem derivative_layout:
  assumes "length y = 12" and "length masses = 3"
  shows "\<exists>out. three_body_equations t y masses = Inr out
           \<and> length out = 12
           \<and> slice out 0 6 = map Fin (slice y 6 12)
           \<and> slice out 6 12 = concat (map (spec_total_acceleration y masses) [0, 1, 2])"
proof -
  let ?out = "map Fin (slice y 6 12)
          @ spec_total_acceleration y masses 0
          @ spec_total_acceleration y masses 1
          @ spec_total_acceleration y masses 2"
  have res: "three_body_equations t y masses = Inr ?out"
    using assms by (rule tbe_result)
  have len6: "length (map Fin (slice y 6 12)) = 6"
    using assms(1) by (simp add: slice_def)
  have "length ?out = 12" using len6 by simp
  moreover have "slice ?out 0 6 = map Fin (slice y 6 12)"
    using len6 by (simp add: slice_def)
  moreover have "slice ?out 6 12 = concat (map (spec_total_acceleration y masses) [0, 1, 2])"
    using len6 by (simp add: slice_def)
  ultimately show ?thesis using res by blast
qed

theorem derivative_layout_witness:
  "length [0, 0, 3, 4, 3, 0, 1, 2, 3, 4, 5, 6 :: real] = 12
   \<and> length [1, 2, 3 :: real] = 3
   \<and> (\<exists>out. three_body_equations 0 [0, 0, 3, 4, 3, 0, 1, 2, 3, 4, 5, 6] [1, 2, 3] = Inr out
           \<and> length out = 12
           \<and> slice out 0 6 = map Fin (slice [0, 0, 3, 4, 3, 0, 1, 2, 3, 4, 5, 6] 6 12)
           \<and> slice out 6 12
               = concat (map (spec_total_acceleration [0, 0, 3, 4, 3, 0, 1, 2, 3, 4, 5, 6] [1, 2, 3])
                   [0, 1, 2]))"
proof -
  have h1: "length [0, 0, 3, 4, 3, 0, 1, 2, 3, 4, 5, 6 :: real] = 12" by simp
  have h2: "length [1, 2, 3 :: real] = 3" by simp
  show ?thesis
    by (intro conjI h1 h2 derivative_layout [OF h1 h2])
qed

subsection \<open>Coincident bodies\<close>

lemma fadd_NaN_right [simp]: "fadd a NaN = NaN"
  by (cases a) simp_all

lemma dist_nonzero:
  fixes a b c d :: real
  assumes "[a, b] \<noteq> [c, d]"
  shows "sqrt ((c - a)\<^sup>2 + (d - b)\<^sup>2) ^ 3 \<noteq> 0"
proof -
  have "c - a \<noteq> 0 \<or> d - b \<noteq> 0" using assms by auto
  then have "(c - a)\<^sup>2 + (d - b)\<^sup>2 \<noteq> 0"
    by (simp add: sum_power2_eq_zero_iff)
  then show ?thesis by simp
qed

lemma spec_pair_distinct:
  assumes "position y i \<noteq> position y j"
  shows "spec_pair_acceleration y masses i j =
     [Fin (masses ! j * (y ! (2 * j) - y ! (2 * i))
            / sqrt ((y ! (2 * j) - y ! (2 * i))\<^sup>2 + (y ! (2 * j + 1) - y ! (2 * i + 1))\<^sup>2) ^ 3),
      Fin (masses ! j * (y ! (2 * j + 1) - y ! (2 * i + 1))
            / sqrt ((y ! (2 * j) - y ! (2 * i))\<^sup>2 + (y ! (2 * j + 1) - y ! (2 * i + 1))\<^sup>2) ^ 3)]"
proof -
  have "[y ! (2 * i), y ! (2 * i + 1)] \<noteq> [y ! (2 * j), y ! (2 * j + 1)]"
    using assms by (simp add: position_def)
  from dist_nonzero [OF this] show ?thesis
    by (simp add: spec_pair_acceleration_def Let_def fdiv_def)
qed







subsection \<open>Momentum\<close>

lemma momentum_cancel:
  fixes m0 m1 m2 :: real
  shows "m0 * (m1 * (p2 - p1) / n12 + m2 * (p3 - p1) / n13)
       + m1 * (m0 * (p1 - p2) / n12 + m2 * (p3 - p2) / n23)
       + m2 * (m0 * (p1 - p3) / n13 + m1 * (p2 - p3) / n23) = 0"
proof -
  have "m0 * (m1 * (p2 - p1) / n12) + m1 * (m0 * (p1 - p2) / n12) = 0"
    by (simp add: algebra_simps diff_divide_distrib)
  moreover have "m0 * (m2 * (p3 - p1) / n13) + m2 * (m0 * (p1 - p3) / n13) = 0"
    by (simp add: algebra_simps diff_divide_distrib)
  moreover have "m1 * (m2 * (p3 - p2) / n23) + m2 * (m1 * (p2 - p3) / n23) = 0"
    by (simp add: algebra_simps diff_divide_distrib)
  ultimately show ?thesis
    by (simp add: distrib_left)
qed

text \<open>
  Claim C10. For every vector of three masses and every 12-component state whose three
  positions are pairwise distinct, the returned accelerations are finite and satisfy
  \<open>masses[0] * a1 + masses[1] * a2 + masses[2] * a3 = 0\<close> in both coordinates, in exact
  real arithmetic: the pairwise terms cancel.
\<close>

theorem momentum_derivative_zero:
  assumes "length y = 12" and "length masses = 3"
    and "\<forall>i<3. \<forall>j<3. i \<noteq> j \<longrightarrow> position y i \<noteq> position y j"
  shows "\<exists>a1x a1y a2x a2y a3x a3y.
           three_body_equations t y masses
             = Inr (map Fin (slice y 6 12) @ map Fin [a1x, a1y, a2x, a2y, a3x, a3y])
           \<and> masses ! 0 * a1x + masses ! 1 * a2x + masses ! 2 * a3x = 0
           \<and> masses ! 0 * a1y + masses ! 1 * a2y + masses ! 2 * a3y = 0"
proof -
  define d where "d i j = sqrt ((y ! (2 * j) - y ! (2 * i))\<^sup>2
                              + (y ! (2 * j + 1) - y ! (2 * i + 1))\<^sup>2) ^ 3" for i j
  define ax where "ax i j = masses ! j * (y ! (2 * j) - y ! (2 * i)) / d i j" for i j
  define ay where "ay i j = masses ! j * (y ! (2 * j + 1) - y ! (2 * i + 1)) / d i j" for i j
  have sym: "d 1 0 = d 0 1" "d 2 0 = d 0 2" "d 2 1 = d 1 2"
    unfolding d_def by (simp_all add: power2_commute)
  have pair: "spec_pair_acceleration y masses i j = [Fin (ax i j), Fin (ay i j)]"
    if "position y i \<noteq> position y j" for i j
    unfolding ax_def ay_def d_def using that by (rule spec_pair_distinct)
  have ne: "position y 0 \<noteq> position y 1" "position y 0 \<noteq> position y 2"
    "position y 1 \<noteq> position y 0" "position y 1 \<noteq> position y 2"
    "position y 2 \<noteq> position y 0" "position y 2 \<noteq> position y 1"
    using assms(3) by (simp_all add: all_less3)
  have o: "others 0 ! 0 = 1" "others 0 ! 1 = 2" "others 1 ! 0 = 0" "others 1 ! 1 = 2"
    "others 2 ! 0 = 0" "others 2 ! 1 = 1"
    by (simp_all add: others_def)
  have t0: "spec_total_acceleration y masses 0 = [Fin (ax 0 1 + ax 0 2), Fin (ay 0 1 + ay 0 2)]"
    unfolding spec_total_acceleration_def o pair [OF ne(1)] pair [OF ne(2)] by simp
  have t1: "spec_total_acceleration y masses 1 = [Fin (ax 1 0 + ax 1 2), Fin (ay 1 0 + ay 1 2)]"
    unfolding spec_total_acceleration_def o pair [OF ne(3)] pair [OF ne(4)] by simp
  have t2: "spec_total_acceleration y masses 2 = [Fin (ax 2 0 + ax 2 1), Fin (ay 2 0 + ay 2 1)]"
    unfolding spec_total_acceleration_def o pair [OF ne(5)] pair [OF ne(6)] by simp
  have res: "three_body_equations t y masses
      = Inr (map Fin (slice y 6 12)
             @ map Fin [ax 0 1 + ax 0 2, ay 0 1 + ay 0 2, ax 1 0 + ax 1 2, ay 1 0 + ay 1 2,
                        ax 2 0 + ax 2 1, ay 2 0 + ay 2 1])"
    unfolding tbe_result [OF assms(1) assms(2)] t0 t1 t2 by simp
  have mx: "masses ! 0 * (ax 0 1 + ax 0 2) + masses ! 1 * (ax 1 0 + ax 1 2)
              + masses ! 2 * (ax 2 0 + ax 2 1) = 0"
    unfolding ax_def sym by (rule momentum_cancel)
  have my: "masses ! 0 * (ay 0 1 + ay 0 2) + masses ! 1 * (ay 1 0 + ay 1 2)
              + masses ! 2 * (ay 2 0 + ay 2 1) = 0"
    unfolding ay_def sym by (rule momentum_cancel)
  show ?thesis using res mx my by blast
qed

theorem momentum_derivative_zero_witness:
  "length [0, 0, 3, 4, 3, 0, 1, 2, 3, 4, 5, 6 :: real] = 12
   \<and> length [1, 2, 3 :: real] = 3
   \<and> position [0, 0, 3, 4, 3, 0, 1, 2, 3, 4, 5, 6 :: real] 0 = [0, 0]
   \<and> position [0, 0, 3, 4, 3, 0, 1, 2, 3, 4, 5, 6 :: real] 1 = [3, 4]
   \<and> position [0, 0, 3, 4, 3, 0, 1, 2, 3, 4, 5, 6 :: real] 2 = [3, 0]
   \<and> (\<exists>a1x a1y a2x a2y a3x a3y.
           three_body_equations 0 [0, 0, 3, 4, 3, 0, 1, 2, 3, 4, 5, 6] [1, 2, 3]
             = Inr (map Fin (slice [0, 0, 3, 4, 3, 0, 1, 2, 3, 4, 5, 6] 6 12)
                    @ map Fin [a1x, a1y, a2x, a2y, a3x, a3y])
           \<and> [1, 2, 3] ! 0 * a1x + [1, 2, 3] ! 1 * a2x + [1, 2, 3] ! 2 * a3x = 0
           \<and> [1, 2, 3] ! 0 * a1y + [1, 2, 3] ! 1 * a2y + [1, 2, 3] ! 2 * a3y = 0)"
proof -
  have h1: "length [0, 0, 3, 4, 3, 0, 1, 2, 3, 4, 5, 6 :: real] = 12" by simp
  have h2: "length [1, 2, 3 :: real] = 3" by simp
  have h3: "\<forall>i<3. \<forall>j<3. i \<noteq> j \<longrightarrow>
         position [0, 0, 3, 4, 3, 0, 1, 2, 3, 4, 5, 6 :: real] i
           \<noteq> position [0, 0, 3, 4, 3, 0, 1, 2, 3, 4, 5, 6] j"
    unfolding all_less3 by (simp add: position_def)
  have p: "position [0, 0, 3, 4, 3, 0, 1, 2, 3, 4, 5, 6 :: real] 0 = [0, 0]"
    "position [0, 0, 3, 4, 3, 0, 1, 2, 3, 4, 5, 6 :: real] 1 = [3, 4]"
    "position [0, 0, 3, 4, 3, 0, 1, 2, 3, 4, 5, 6 :: real] 2 = [3, 0]"
    by (simp_all add: position_def)
  show ?thesis
    by (intro conjI h1 h2 p momentum_derivative_zero [OF h1 h2 h3])
qed

section \<open>Properties of the integration call\<close>

lemmas evaluator_defs = three_body_equations_def slice_def index_def then_err_def
  compute_acceleration_def broadcast_def linalg_norm_def fdiv_def

text \<open>
  Claim C4, as stated: a configuration with a non-positive mass is rejected before any
  integration begins. The source checks nothing before it calls the solver. With masses
  \<open>1, 0, -1\<close> (and an otherwise valid initial state, span and evaluation times) and a solver
  that accepts its input, the call returns that solver's times and rows.
\<close>

theorem nonpositive_mass_accepted_counterexample:
  "run_simulation hold_solver [1, 0, - 1] [- 1, 0, 1, 0, 0, 1, 0, 1, 0, - 1, 1, 0] (0, 100) [0, 100]
     = Inr ([0, 100],
            [[Fin (- 1), Fin (- 1)], [Fin 0, Fin 0], [Fin 1, Fin 1], [Fin 0, Fin 0],
             [Fin 0, Fin 0], [Fin 1, Fin 1], [Fin 0, Fin 0], [Fin 1, Fin 1],
             [Fin 0, Fin 0], [Fin (- 1), Fin (- 1)], [Fin 1, Fin 1], [Fin 0, Fin 0]])"
  by (simp add: run_simulation_def hold_solver_def evaluator_defs)

text \<open>
  Claim C4, amended. The integration call validates nothing itself: for every masses,
  initial state, span and evaluation times, valid or not, it hands them unchanged to the
  solver; when the solver returns a result the call returns that result's times and
  trajectory, and the call fails exactly when the solver fails, with the solver's error.
\<close>

theorem run_simulation_only_forwards:
  "(solve_ivp (\<lambda>t y. three_body_equations t y masses) tsp initial_conditions tev = Inr result
      \<longrightarrow> run_simulation solve_ivp masses initial_conditions tsp tev
            = Inr (res_t result, res_y result))
   \<and> (run_simulation solve_ivp masses initial_conditions tsp tev = Inl e
      \<longleftrightarrow> solve_ivp (\<lambda>t y. three_body_equations t y masses) tsp initial_conditions tev = Inl e)"
  by (cases "solve_ivp (\<lambda>t y. three_body_equations t y masses) tsp initial_conditions tev")
    (simp_all add: run_simulation_def then_err_def)

theorem run_simulation_only_forwards_witness:
  "hold_solver (\<lambda>t y. three_body_equations t y [1, 1, 1]) (0, 100)
       [- 1, 0, 1, 0, 0, 1, 0, 1, 0, - 1, 1, 0] [0, 100]
     = Inr \<lparr>res_t = [0, 100],
            res_y = [[Fin (- 1), Fin (- 1)], [Fin 0, Fin 0], [Fin 1, Fin 1], [Fin 0, Fin 0],
             [Fin 0, Fin 0], [Fin 1, Fin 1], [Fin 0, Fin 0], [Fin 1, Fin 1],
             [Fin 0, Fin 0], [Fin (- 1), Fin (- 1)], [Fin 1, Fin 1], [Fin 0, Fin 0]]\<rparr>
   \<and> run_simulation hold_solver [1, 1, 1] [- 1, 0, 1, 0, 0, 1, 0, 1, 0, - 1, 1, 0] (0, 100) [0, 100]
     = Inr ([0, 100],
            [[Fin (- 1), Fin (- 1)], [Fin 0, Fin 0], [Fin 1, Fin 1], [Fin 0, Fin 0],
             [Fin 0, Fin 0], [Fin 1, Fin 1], [Fin 0, Fin 0], [Fin 1, Fin 1],
             [Fin 0, Fin 0], [Fin (- 1), Fin (- 1)], [Fin 1, Fin 1], [Fin 0, Fin 0]])"
proof -
  let ?r = "\<lparr>res_t = [0, 100],
            res_y = [[Fin (- 1), Fin (- 1)], [Fin 0, Fin 0], [Fin 1, Fin 1], [Fin 0, Fin 0],
             [Fin 0, Fin 0], [Fin 1, Fin 1], [Fin 0, Fin 0], [Fin 1, Fin 1],
             [Fin 0, Fin 0], [Fin (- 1), Fin (- 1)], [Fin 1, Fin 1], [Fin 0, Fin 0]]\<rparr>"
  have h: "hold_solver (\<lambda>t y. three_body_equations t y [1, 1, 1]) (0, 100)
       [- 1, 0, 1, 0, 0, 1, 0, 1, 0, - 1, 1, 0] [0, 100] = Inr ?r"
    by (simp add: hold_solver_def evaluator_defs)
  from run_simulation_only_forwards
    [of hold_solver "[1, 1, 1]" "(0, 100)" "[- 1, 0, 1, 0, 0, 1, 0, 1, 0, - 1, 1, 0]" "[0, 100]" ?r]
  have "run_simulation hold_solver [1, 1, 1] [- 1, 0, 1, 0, 0, 1, 0, 1, 0, - 1, 1, 0] (0, 100) [0, 100]
      = Inr (res_t ?r, res_y ?r)"
    using h by blast
  then show ?thesis using h by simp
qed

section \<open>Properties of the evaluation-time grid\<close>

lemma length_linspace: "length (linspace a b n) = n"
  by (simp add: linspace_def Let_def)

lemma nth_linspace:
  assumes "1 < n" and "i < n"
  shows "linspace a b n ! i = (if i = n - 1 then b else real i * ((b - a) / real (n - 1)) + a)"
  using assms by (simp add: linspace_def Let_def nth_list_update)

lemma t_eval_nth:
  assumes "i < 10000"
  shows "t_eval ! i = (if i = 9999 then 100 else real i * (100 / 9999))"
proof -
  have "linspace 0 100 10000 ! i
      = (if i = 10000 - 1 then 100 else real i * ((100 - 0) / real (10000 - 1 :: nat)) + 0)"
    using assms by (intro nth_linspace) simp_all
  then show ?thesis by (simp add: t_eval_def)
qed

lemma t_eval_step:
  assumes "i < 9999"
  shows "t_eval ! (i + 1) - t_eval ! i = 100 / 9999"
proof (cases "i = 9998")
  case True
  then show ?thesis by (simp add: t_eval_nth)
next
  case False
  then have "i + 1 \<noteq> 9999" by simp
  moreover have "i \<noteq> 9999" using assms by simp
  moreover have "i + 1 < 10000" "i < 10000" using assms by simp_all
  ultimately have "t_eval ! (i + 1) = real (i + 1) * (100 / 9999)" "t_eval ! i = real i * (100 / 9999)"
    by (simp_all only: t_eval_nth if_False)
  then show ?thesis by (simp add: algebra_simps)
qed

text \<open>
  Claim C9, as stated: the grid of 10,000 points over \<open>(0, 100)\<close> has step 0.01. Both end
  points are samples, so there are 9,999 intervals and the step is \<open>100 / 9999\<close>.
\<close>

theorem evaluation_grid_step_counterexample:
  "length t_eval = 10000 \<and> t_eval ! 1 - t_eval ! 0 = 100 / 9999 \<and> t_eval ! 1 - t_eval ! 0 \<noteq> 1 / 100"
proof -
  have "t_eval ! (0 + 1) - t_eval ! 0 = 100 / 9999"
    by (rule t_eval_step) simp
  then show ?thesis by (simp add: t_eval_def length_linspace)
qed

text \<open>
  Claim C9, amended. The evaluation-time grid has 10,000 equally spaced points, the first
  at the start of the time span \<open>(0, 100)\<close> and the last at its end; the step between
  consecutive evaluation times is \<open>100 / 9999\<close>.
\<close>

theorem evaluation_grid:
  "length t_eval = 10000
   \<and> t_eval ! 0 = fst t_span
   \<and> t_eval ! 9999 = snd t_span
   \<and> (\<forall>i<9999. t_eval ! (i + 1) - t_eval ! i = 100 / 9999)"
proof (intro conjI allI impI)
  show "length t_eval = 10000" by (simp add: t_eval_def length_linspace)
  show "t_eval ! 0 = fst t_span" by (simp add: t_eval_nth t_span_def)
  show "t_eval ! 9999 = snd t_span" by (simp add: t_eval_nth t_span_def)
  show "t_eval ! (i + 1) - t_eval ! i = 100 / 9999" if "i < 9999" for i
    using that by (rule t_eval_step)
qed

theorem evaluation_grid_witness:
  "t_eval ! (5000 + 1) - t_eval ! 5000 = 100 / 9999"
proof -
  have "(5000::nat) < 9999" by simp
  with evaluation_grid show ?thesis by blast
qed

section \<open>Properties of playback\<close>

lemma upt3: "[0..<3] = [0, 1, 2]"
  by code_simp

lemma update_explicit:
  assumes "idx < length r0" "idx < length r1" "idx < length r2"
    "idx < length r3" "idx < length r4" "idx < length r5"
  shows "update_loop [r0, r1, r2, r3, r4, r5, r6, r7, r8, r9, r10, r11] [s0, s1, s2] idx [0, 1, 2]
           ([l0, l1, l2], [t0, t1, t2])
     = Inr ([l0\<lparr>xdata := [r0 ! idx], ydata := [r1 ! idx], markersize := s0\<rparr>,
             l1\<lparr>xdata := [r2 ! idx], ydata := [r3 ! idx], markersize := s1\<rparr>,
             l2\<lparr>xdata := [r4 ! idx], ydata := [r5 ! idx], markersize := s2\<rparr>],
            [t0\<lparr>xdata := take (idx + 1) r0, ydata := take (idx + 1) r1\<rparr>,
             t1\<lparr>xdata := take (idx + 1) r2, ydata := take (idx + 1) r3\<rparr>,
             t2\<lparr>xdata := take (idx + 1) r4, ydata := take (idx + 1) r5\<rparr>])"
  using assms
  by (simp add: update_body_def get2_def row_prefix_def index_def then_err_def Let_def)

lemma update_result:
  assumes "0 < length t" and "well_formed_result t y"
    and "length sizes = 3" and "length lines = 3" and "length trails = 3"
  shows "update frame t y sizes lines trails
     = Inr ([(lines ! 0)\<lparr>xdata := [y ! 0 ! (frame mod length t)],
                          ydata := [y ! 1 ! (frame mod length t)], markersize := sizes ! 0\<rparr>,
             (lines ! 1)\<lparr>xdata := [y ! 2 ! (frame mod length t)],
                          ydata := [y ! 3 ! (frame mod length t)], markersize := sizes ! 1\<rparr>,
             (lines ! 2)\<lparr>xdata := [y ! 4 ! (frame mod length t)],
                          ydata := [y ! 5 ! (frame mod length t)], markersize := sizes ! 2\<rparr>,
             (trails ! 0)\<lparr>xdata := take (frame mod length t + 1) (y ! 0),
                           ydata := take (frame mod length t + 1) (y ! 1)\<rparr>,
             (trails ! 1)\<lparr>xdata := take (frame mod length t + 1) (y ! 2),
                           ydata := take (frame mod length t + 1) (y ! 3)\<rparr>,
             (trails ! 2)\<lparr>xdata := take (frame mod length t + 1) (y ! 4),
                           ydata := take (frame mod length t + 1) (y ! 5)\<rparr>])"
proof -
  let ?idx = "frame mod length t"
  have idx: "?idx < length t" using assms(1) by simp
  have len: "length y = 12" and rows: "\<forall>row \<in> set y. length row = length t"
    using assms(2) by (simp_all add: well_formed_result_def)
  obtain r0 r1 r2 r3 r4 r5 r6 r7 r8 r9 r10 r11
    where y: "y = [r0, r1, r2, r3, r4, r5, r6, r7, r8, r9, r10, r11]"
    using list12 [OF len] by blast
  obtain s0 s1 s2 where s: "sizes = [s0, s1, s2]"
    using list3 [OF assms(3)] by blast
  obtain l0 l1 l2 where l: "lines = [l0, l1, l2]"
    using list3 [OF assms(4)] by blast
  obtain t0 t1 t2 where tr: "trails = [t0, t1, t2]"
    using list3 [OF assms(5)] by blast
  have b: "?idx < length r0" "?idx < length r1" "?idx < length r2"
    "?idx < length r3" "?idx < length r4" "?idx < length r5"
    using rows idx by (simp_all add: y)
  have idxs: "[0..<length lines] = [0, 1, 2]"
    unfolding assms(4) by (rule upt3)
  have "update_loop y sizes ?idx [0..<length lines] (lines, trails)
     = Inr ([l0\<lparr>xdata := [r0 ! ?idx], ydata := [r1 ! ?idx], markersize := s0\<rparr>,
             l1\<lparr>xdata := [r2 ! ?idx], ydata := [r3 ! ?idx], markersize := s1\<rparr>,
             l2\<lparr>xdata := [r4 ! ?idx], ydata := [r5 ! ?idx], markersize := s2\<rparr>],
            [t0\<lparr>xdata := take (?idx + 1) r0, ydata := take (?idx + 1) r1\<rparr>,
             t1\<lparr>xdata := take (?idx + 1) r2, ydata := take (?idx + 1) r3\<rparr>,
             t2\<lparr>xdata := take (?idx + 1) r4, ydata := take (?idx + 1) r5\<rparr>])"
    unfolding idxs unfolding y s l tr by (rule update_explicit [OF b])
  then show ?thesis
    using assms(1) by (simp add: update_def then_err_def Let_def y s l tr)
qed

lemma update_loops: "update (frame + length t) t y sizes lines trails = update frame t y sizes lines trails"
  by (simp add: update_def)

text \<open>
  Claim C7. For a non-empty trajectory as the solver returns it, and every frame index,
  the callback places the marker of each body at that body's stored position in the
  state at index \<open>frame mod length t\<close>, one stored sample and nothing interpolated; and
  for every trajectory whatsoever the frame index \<open>frame + length t\<close> gives the same
  outcome as \<open>frame\<close>.
\<close>

theorem playback_wraps_modulo:
  "update (frame + length t) t y sizes lines trails = update frame t y sizes lines trails
   \<and> (0 < length t \<and> well_formed_result t y
        \<and> length sizes = 3 \<and> length lines = 3 \<and> length trails = 3
      \<longrightarrow> (\<exists>out. update frame t y sizes lines trails = Inr out
             \<and> (\<forall>i<3. xdata (out ! i) = [state_at y (frame mod length t) ! (2 * i)]
                     \<and> ydata (out ! i) = [state_at y (frame mod length t) ! (2 * i + 1)])))"
proof (intro conjI impI)
  show "update (frame + length t) t y sizes lines trails = update frame t y sizes lines trails"
    by (rule update_loops)
next
  assume h: "0 < length t \<and> well_formed_result t y
        \<and> length sizes = 3 \<and> length lines = 3 \<and> length trails = 3"
  then have len: "length y = 12"
    by (simp add: well_formed_result_def)
  have st: "state_at y k ! j = y ! j ! k" if "j < 12" for j k
    using that len by (simp add: state_at_def)
  from h have r: "update frame t y sizes lines trails
     = Inr [(lines ! 0)\<lparr>xdata := [y ! 0 ! (frame mod length t)],
                          ydata := [y ! 1 ! (frame mod length t)], markersize := sizes ! 0\<rparr>,
             (lines ! 1)\<lparr>xdata := [y ! 2 ! (frame mod length t)],
                          ydata := [y ! 3 ! (frame mod length t)], markersize := sizes ! 1\<rparr>,
             (lines ! 2)\<lparr>xdata := [y ! 4 ! (frame mod length t)],
                          ydata := [y ! 5 ! (frame mod length t)], markersize := sizes ! 2\<rparr>,
             (trails ! 0)\<lparr>xdata := take (frame mod length t + 1) (y ! 0),
                           ydata := take (frame mod length t + 1) (y ! 1)\<rparr>,
             (trails ! 1)\<lparr>xdata := take (frame mod length t + 1) (y ! 2),
                           ydata := take (frame mod length t + 1) (y ! 3)\<rparr>,
             (trails ! 2)\<lparr>xdata := take (frame mod length t + 1) (y ! 4),
                           ydata := take (frame mod length t + 1) (y ! 5)\<rparr>]"
    by (intro update_result) simp_all
  show "\<exists>out. update frame t y sizes lines trails = Inr out
             \<and> (\<forall>i<3. xdata (out ! i) = [state_at y (frame mod length t) ! (2 * i)]
                     \<and> ydata (out ! i) = [state_at y (frame mod length t) ! (2 * i + 1)])"
    unfolding r all_less3 by (simp add: st)
qed

theorem playback_wraps_modulo_witness:
  "0 < length [0, 1 :: real]
   \<and> well_formed_result [0, 1]
       [[1, 2], [3, 4], [5, 6], [7, 8], [9, 10], [11, 12],
        [0, 0], [0, 0], [0, 0], [0, 0], [0, 0], [0, 0 :: real]]
   \<and> length [10, 10, 10 :: real] = 3
   \<and> length
       ([\<lparr>xdata = [], ydata = [], markersize = 6\<rparr>,
        \<lparr>xdata = [], ydata = [], markersize = 6\<rparr>,
        \<lparr>xdata = [], ydata = [], markersize = 6\<rparr>] :: real line2d list) = 3
   \<and> update (3 + length [0, 1 :: real]) [0, 1]
       [[1, 2], [3, 4], [5, 6], [7, 8], [9, 10], [11, 12],
        [0, 0], [0, 0], [0, 0], [0, 0], [0, 0], [0, 0 :: real]] [10, 10, 10]
       [\<lparr>xdata = [], ydata = [], markersize = 6\<rparr>,
        \<lparr>xdata = [], ydata = [], markersize = 6\<rparr>,
        \<lparr>xdata = [], ydata = [], markersize = 6\<rparr>]
       [\<lparr>xdata = [], ydata = [], markersize = 6\<rparr>,
        \<lparr>xdata = [], ydata = [], markersize = 6\<rparr>,
        \<lparr>xdata = [], ydata = [], markersize = 6\<rparr>]
       = update 3 [0, 1]
       [[1, 2], [3, 4], [5, 6], [7, 8], [9, 10], [11, 12],
        [0, 0], [0, 0], [0, 0], [0, 0], [0, 0], [0, 0 :: real]] [10, 10, 10]
       [\<lparr>xdata = [], ydata = [], markersize = 6\<rparr>,
        \<lparr>xdata = [], ydata = [], markersize = 6\<rparr>,
        \<lparr>xdata = [], ydata = [], markersize = 6\<rparr>]
       [\<lparr>xdata = [], ydata = [], markersize = 6\<rparr>,
        \<lparr>xdata = [], ydata = [], markersize = 6\<rparr>,
        \<lparr>xdata = [], ydata = [], markersize = 6\<rparr>]
   \<and> (\<exists>out. update 3 [0, 1]
       [[1, 2], [3, 4], [5, 6], [7, 8], [9, 10], [11, 12],
        [0, 0], [0, 0], [0, 0], [0, 0], [0, 0], [0, 0 :: real]] [10, 10, 10]
       [\<lparr>xdata = [], ydata = [], markersize = 6\<rparr>,
        \<lparr>xdata = [], ydata = [], markersize = 6\<rparr>,
        \<lparr>xdata = [], ydata = [], markersize = 6\<rparr>]
       [\<lparr>xdata = [], ydata = [], markersize = 6\<rparr>,
        \<lparr>xdata = [], ydata = [], markersize = 6\<rparr>,
        \<lparr>xdata = [], ydata = [], markersize = 6\<rparr>] = Inr out
           \<and> (\<forall>i<3. xdata (out ! i) = [state_at
       [[1, 2], [3, 4], [5, 6], [7, 8], [9, 10], [11, 12],
        [0, 0], [0, 0], [0, 0], [0, 0], [0, 0], [0, 0 :: real]] (3 mod length [0, 1 :: real]) ! (2 * i)]
                   \<and> ydata (out ! i) = [state_at
       [[1, 2], [3, 4], [5, 6], [7, 8], [9, 10], [11, 12],
        [0, 0], [0, 0], [0, 0], [0, 0], [0, 0], [0, 0 :: real]] (3 mod length [0, 1 :: real]) ! (2 * i + 1)]))"
proof -
  have h1: "0 < length [0, 1 :: real]" by simp
  have h2: "well_formed_result [0, 1]
       [[1, 2], [3, 4], [5, 6], [7, 8], [9, 10], [11, 12],
        [0, 0], [0, 0], [0, 0], [0, 0], [0, 0], [0, 0 :: real]]"
    by (simp add: well_formed_result_def)
  have h3: "length [10, 10, 10 :: real] = 3" by simp
  have h4: "length
       ([\<lparr>xdata = [], ydata = [], markersize = 6\<rparr>,
        \<lparr>xdata = [], ydata = [], markersize = 6\<rparr>,
        \<lparr>xdata = [], ydata = [], markersize = 6\<rparr>] :: real line2d list) = 3" by simp
  note w = playback_wraps_modulo [of 3 "[0, 1]" "
       [[1, 2], [3, 4], [5, 6], [7, 8], [9, 10], [11, 12],
        [0, 0], [0, 0], [0, 0], [0, 0], [0, 0], [0, 0 :: real]]" "[10, 10, 10]" "
       [\<lparr>xdata = [], ydata = [], markersize = 6\<rparr>,
        \<lparr>xdata = [], ydata = [], markersize = 6\<rparr>,
        \<lparr>xdata = [], ydata = [], markersize = 6\<rparr>]" "
       [\<lparr>xdata = [], ydata = [], markersize = 6\<rparr>,
        \<lparr>xdata = [], ydata = [], markersize = 6\<rparr>,
        \<lparr>xdata = [], ydata = [], markersize = 6\<rparr>]"]
  have eq: "update (3 + length [0, 1 :: real]) [0, 1]
       [[1, 2], [3, 4], [5, 6], [7, 8], [9, 10], [11, 12],
        [0, 0], [0, 0], [0, 0], [0, 0], [0, 0], [0, 0 :: real]] [10, 10, 10]
       [\<lparr>xdata = [], ydata = [], markersize = 6\<rparr>,
        \<lparr>xdata = [], ydata = [], markersize = 6\<rparr>,
        \<lparr>xdata = [], ydata = [], markersize = 6\<rparr>]
       [\<lparr>xdata = [], ydata = [], markersize = 6\<rparr>,
        \<lparr>xdata = [], ydata = [], markersize = 6\<rparr>,
        \<lparr>xdata = [], ydata = [], markersize = 6\<rparr>]
       = update 3 [0, 1]
       [[1, 2], [3, 4], [5, 6], [7, 8], [9, 10], [11, 12],
        [0, 0], [0, 0], [0, 0], [0, 0], [0, 0], [0, 0 :: real]] [10, 10, 10]
       [\<lparr>xdata = [], ydata = [], markersize = 6\<rparr>,
        \<lparr>xdata = [], ydata = [], markersize = 6\<rparr>,
        \<lparr>xdata = [], ydata = [], markersize = 6\<rparr>]
       [\<lparr>xdata = [], ydata = [], markersize = 6\<rparr>,
        \<lparr>xdata = [], ydata = [], markersize = 6\<rparr>,
        \<lparr>xdata = [], ydata = [], markersize = 6\<rparr>]"
    using w by (rule conjunct1)
  have ex: "\<exists>out. update 3 [0, 1]
       [[1, 2], [3, 4], [5, 6], [7, 8], [9, 10], [11, 12],
        [0, 0], [0, 0], [0, 0], [0, 0], [0, 0], [0, 0 :: real]] [10, 10, 10]
       [\<lparr>xdata = [], ydata = [], markersize = 6\<rparr>,
        \<lparr>xdata = [], ydata = [], markersize = 6\<rparr>,
        \<lparr>xdata = [], ydata = [], markersize = 6\<rparr>]
       [\<lparr>xdata = [], ydata = [], markersize = 6\<rparr>,
        \<lparr>xdata = [], ydata = [], markersize = 6\<rparr>,
        \<lparr>xdata = [], ydata = [], markersize = 6\<rparr>] = Inr out
           \<and> (\<forall>i<3. xdata (out ! i) = [state_at
       [[1, 2], [3, 4], [5, 6], [7, 8], [9, 10], [11, 12],
        [0, 0], [0, 0], [0, 0], [0, 0], [0, 0], [0, 0 :: real]] (3 mod length [0, 1 :: real]) ! (2 * i)]
                   \<and> ydata (out ! i) = [state_at
       [[1, 2], [3, 4], [5, 6], [7, 8], [9, 10], [11, 12],
        [0, 0], [0, 0], [0, 0], [0, 0], [0, 0], [0, 0 :: real]] (3 mod length [0, 1 :: real]) ! (2 * i + 1)])"
    by (rule mp [OF conjunct2 [OF w]]) (intro conjI h1 h2 h3 h4)
  show ?thesis
    by (intro conjI h1 h2 h3 h4 eq ex)
qed

text \<open>
  Claim C8, as stated: at every frame index the trail of a body is the slice of its
  position history from index 0 to the frame index inclusive. With two stored samples
  and frame index 2 the trail of the first body holds one point, while the slice up to
  index 2 holds both.
\<close>

theorem trail_restarts_counterexample:
  "update 2 [0, 1]
       [[1, 2], [3, 4], [5, 6], [7, 8], [9, 10], [11, 12],
        [0, 0], [0, 0], [0, 0], [0, 0], [0, 0], [0, 0 :: real]] [10, 10, 10]
       [\<lparr>xdata = [], ydata = [], markersize = 6\<rparr>,
        \<lparr>xdata = [], ydata = [], markersize = 6\<rparr>,
        \<lparr>xdata = [], ydata = [], markersize = 6\<rparr>]
       [\<lparr>xdata = [], ydata = [], markersize = 6\<rparr>,
        \<lparr>xdata = [], ydata = [], markersize = 6\<rparr>,
        \<lparr>xdata = [], ydata = [], markersize = 6\<rparr>]
     = Inr [\<lparr>xdata = [1], ydata = [3], markersize = 10\<rparr>,
            \<lparr>xdata = [5], ydata = [7], markersize = 10\<rparr>,
            \<lparr>xdata = [9], ydata = [11], markersize = 10\<rparr>,
            \<lparr>xdata = [1], ydata = [3], markersize = 6\<rparr>,
            \<lparr>xdata = [5], ydata = [7], markersize = 6\<rparr>,
            \<lparr>xdata = [9], ydata = [11], markersize = 6\<rparr>]
   \<and> spec_trail
       [[1, 2], [3, 4], [5, 6], [7, 8], [9, 10], [11, 12],
        [0, 0], [0, 0], [0, 0], [0, 0], [0, 0], [0, 0 :: real]] 0 2 = ([1, 2], [3, 4])
   \<and> (xdata (projr (update 2 [0, 1]
       [[1, 2], [3, 4], [5, 6], [7, 8], [9, 10], [11, 12],
        [0, 0], [0, 0], [0, 0], [0, 0], [0, 0], [0, 0 :: real]] [10, 10, 10]
       [\<lparr>xdata = [], ydata = [], markersize = 6\<rparr>,
        \<lparr>xdata = [], ydata = [], markersize = 6\<rparr>,
        \<lparr>xdata = [], ydata = [], markersize = 6\<rparr>]
       [\<lparr>xdata = [], ydata = [], markersize = 6\<rparr>,
        \<lparr>xdata = [], ydata = [], markersize = 6\<rparr>,
        \<lparr>xdata = [], ydata = [], markersize = 6\<rparr>]) ! 3),
       ydata (projr (update 2 [0, 1]
       [[1, 2], [3, 4], [5, 6], [7, 8], [9, 10], [11, 12],
        [0, 0], [0, 0], [0, 0], [0, 0], [0, 0], [0, 0 :: real]] [10, 10, 10]
       [\<lparr>xdata = [], ydata = [], markersize = 6\<rparr>,
        \<lparr>xdata = [], ydata = [], markersize = 6\<rparr>,
        \<lparr>xdata = [], ydata = [], markersize = 6\<rparr>]
       [\<lparr>xdata = [], ydata = [], markersize = 6\<rparr>,
        \<lparr>xdata = [], ydata = [], markersize = 6\<rparr>,
        \<lparr>xdata = [], ydata = [], markersize = 6\<rparr>]) ! 3))
      \<noteq> spec_trail
       [[1, 2], [3, 4], [5, 6], [7, 8], [9, 10], [11, 12],
        [0, 0], [0, 0], [0, 0], [0, 0], [0, 0], [0, 0 :: real]] 0 2"
proof -
  have m: "(2::nat) mod Suc (Suc 0) = 0"
    by (simp add: numeral_2_eq_2)
  show ?thesis
    by (simp add: update_def upt3 update_body_def get2_def row_prefix_def index_def then_err_def
        Let_def spec_trail_def slice_def m)
qed

text \<open>
  Claim C8, amended. At every frame index the trail of each body is the slice of that
  body's position history from index 0 to \<open>frame mod length t\<close> inclusive, whatever the
  lines held before; for a frame index below the number of samples this is the slice up
  to the frame index itself.
\<close>

theorem trail_is_prefix_to_wrapped_index:
  assumes "0 < length t" and "well_formed_result t y"
    and "length sizes = 3" and "length lines = 3" and "length trails = 3"
  shows "\<exists>out. update frame t y sizes lines trails = Inr out
           \<and> (\<forall>i<3. (xdata (out ! (3 + i)), ydata (out ! (3 + i)))
                     = spec_trail y i (frame mod length t))
           \<and> (frame < length t \<longrightarrow>
                (\<forall>i<3. (xdata (out ! (3 + i)), ydata (out ! (3 + i))) = spec_trail y i frame))"
proof -
  have a: "\<exists>out. update frame t y sizes lines trails = Inr out
           \<and> (\<forall>i<3. (xdata (out ! (3 + i)), ydata (out ! (3 + i)))
                     = spec_trail y i (frame mod length t))"
    unfolding update_result [OF assms] all_less3
    by (simp add: spec_trail_def slice_def)
  then show ?thesis by auto
qed

theorem trail_is_prefix_to_wrapped_index_witness:
  "0 < length [0, 1 :: real]
   \<and> well_formed_result [0, 1]
       [[1, 2], [3, 4], [5, 6], [7, 8], [9, 10], [11, 12],
        [0, 0], [0, 0], [0, 0], [0, 0], [0, 0], [0, 0 :: real]]
   \<and> length [10, 10, 10 :: real] = 3
   \<and> length
       [\<lparr>xdata = [], ydata = [], markersize = 6\<rparr>,
        \<lparr>xdata = [], ydata = [], markersize = 6\<rparr>,
        \<lparr>xdata = [], ydata = [], markersize = 6\<rparr>] = 3
   \<and> (\<exists>out. update 2 [0, 1]
       [[1, 2], [3, 4], [5, 6], [7, 8], [9, 10], [11, 12],
        [0, 0], [0, 0], [0, 0], [0, 0], [0, 0], [0, 0 :: real]] [10, 10, 10]
       [\<lparr>xdata = [], ydata = [], markersize = 6\<rparr>,
        \<lparr>xdata = [], ydata = [], markersize = 6\<rparr>,
        \<lparr>xdata = [], ydata = [], markersize = 6\<rparr>]
       [\<lparr>xdata = [], ydata = [], markersize = 6\<rparr>,
        \<lparr>xdata = [], ydata = [], markersize = 6\<rparr>,
        \<lparr>xdata = [], ydata = [], markersize = 6\<rparr>] = Inr out
           \<and> (\<forall>i<3. (xdata (out ! (3 + i)), ydata (out ! (3 + i)))
                     = spec_trail
       [[1, 2], [3, 4], [5, 6], [7, 8], [9, 10], [11, 12],
        [0, 0], [0, 0], [0, 0], [0, 0], [0, 0], [0, 0 :: real]] i (2 mod length [0, 1 :: real]))
           \<and> (2 < length [0, 1 :: real] \<longrightarrow>
                (\<forall>i<3. (xdata (out ! (3 + i)), ydata (out ! (3 + i))) = spec_trail
       [[1, 2], [3, 4], [5, 6], [7, 8], [9, 10], [11, 12],
        [0, 0], [0, 0], [0, 0], [0, 0], [0, 0], [0, 0 :: real]] i 2)))"
proof -
  have h1: "0 < length [0, 1 :: real]" by simp
  have h2: "well_formed_result [0, 1]
       [[1, 2], [3, 4], [5, 6], [7, 8], [9, 10], [11, 12],
        [0, 0], [0, 0], [0, 0], [0, 0], [0, 0], [0, 0 :: real]]"
    by (simp add: well_formed_result_def)
  have h3: "length [10, 10, 10 :: real] = 3" by simp
  have h4: "length
       [\<lparr>xdata = [], ydata = [], markersize = 6\<rparr>,
        \<lparr>xdata = [], ydata = [], markersize = 6\<rparr>,
        \<lparr>xdata = [], ydata = [], markersize = 6\<rparr>] = 3" by simp
  show ?thesis
    by (intro conjI h1 h2 h3 h4 trail_is_prefix_to_wrapped_index [OF h1 h2 h3 h4 h4])
qed

end
